theory Spec2Isabelle
  imports Complex_Main "HOL-Library.Sublist"
begin

section \<open>Python string primitives used by the agent\<close>


definition lower_letters :: string where
  "lower_letters = ''abcdefghijklmnopqrstuvwxyz''"

definition upper_letters :: string where
  "upper_letters = ''ABCDEFGHIJKLMNOPQRSTUVWXYZ''"

definition digits :: string where
  "digits = ''0123456789''"

definition upper_char :: "char \<Rightarrow> char" where
  "upper_char c = (case map_of (zip lower_letters upper_letters) c of Some u \<Rightarrow> u | None \<Rightarrow> c)"

definition lower_char :: "char \<Rightarrow> char" where
  "lower_char c = (case map_of (zip upper_letters lower_letters) c of Some l \<Rightarrow> l | None \<Rightarrow> c)"

definition upper :: "string \<Rightarrow> string" where
  "upper s = map upper_char s"

definition lower :: "string \<Rightarrow> string" where
  "lower s = map lower_char s"

definition is_space :: "char \<Rightarrow> bool" where
  "is_space c =
     (c \<in> set [CHR '' '', CHR 0x09, CHR 0x0A, CHR 0x0B, CHR 0x0C, CHR 0x0D,
                CHR 0x1C, CHR 0x1D, CHR 0x1E, CHR 0x1F])"

definition is_word_char :: "char \<Rightarrow> bool" where
  "is_word_char c = (c \<in> set (lower_letters @ upper_letters @ digits @ ''_''))"

definition lstrip :: "string \<Rightarrow> string" where
  "lstrip s = dropWhile is_space s"

definition rstrip :: "string \<Rightarrow> string" where
  "rstrip s = rev (dropWhile is_space (rev s))"

definition strip :: "string \<Rightarrow> string" where
  "strip s = rstrip (lstrip s)"

text \<open>\<open>s.rstrip(';')\<close>: every trailing occurrence of the given character is removed.\<close>

definition rstrip_char :: "char \<Rightarrow> string \<Rightarrow> string" where
  "rstrip_char d s = rev (dropWhile (\<lambda>c. c = d) (rev s))"

text \<open>\<open>sub in s\<close> on Python strings: \<open>sub\<close> occurs as a contiguous run of \<open>s\<close>.\<close>

fun str_in :: "string \<Rightarrow> string \<Rightarrow> bool" where
  "str_in sub [] = (sub = [])"
| "str_in sub (c # cs) = (prefix sub (c # cs) \<or> str_in sub cs)"

text \<open>
  \<open>re.search(r'\b' + kw + r'\b', s)\<close> for a keyword made of word characters: some
  occurrence of \<open>kw\<close> in \<open>s\<close> has no word character directly before it and none
  directly after it. The second argument is the character before the current position.
\<close>

definition boundary_after :: "string \<Rightarrow> bool" where
  "boundary_after rest = (case rest of [] \<Rightarrow> True | c # _ \<Rightarrow> \<not> is_word_char c)"

fun word_search_from :: "string \<Rightarrow> char option \<Rightarrow> string \<Rightarrow> bool" where
  "word_search_from kw prev [] = False"
| "word_search_from kw prev (c # cs) =
     ((prefix kw (c # cs)
         \<and> (case prev of None \<Rightarrow> True | Some p \<Rightarrow> \<not> is_word_char p)
         \<and> boundary_after (drop (length kw) (c # cs)))
      \<or> word_search_from kw (Some c) cs)"

definition word_search :: "string \<Rightarrow> string \<Rightarrow> bool" where
  "word_search kw s = word_search_from kw None s"

text \<open>Decimal rendering of a Python \<open>int\<close>, as \<open>str(n)\<close> and an f-string do.\<close>

definition digit_char :: "nat \<Rightarrow> char" where
  "digit_char d = digits ! d"

fun str_nat :: "nat \<Rightarrow> string" where
  "str_nat n = (if n < 10 then [digit_char n] else str_nat (n div 10) @ [digit_char (n mod 10)])"

definition str_int :: "int \<Rightarrow> string" where
  "str_int i = (if i < 0 then CHR ''-'' # str_nat (nat (- i)) else str_nat (nat i))"

section \<open>Exceptions\<close>

text \<open>
  A raised exception is a value: its class and the message \<open>str(e)\<close>. A function
  that may raise returns \<open>exn + 'a\<close>, with \<open>Inl\<close> the exception.
\<close>

datatype exn_class =
  Sqlite3Error | ValueError | TypeError | RuntimeError | NameError | IndexError | AttributeError
  | JSONDecodeError | RecursionError | ProviderError

datatype exn = Exn exn_class string

fun exn_str :: "exn \<Rightarrow> string" where
  "exn_str (Exn k m) = m"

fun exn_class_of :: "exn \<Rightarrow> exn_class" where
  "exn_class_of (Exn k m) = k"

section \<open>tools.py: the SQL validator and the row cap\<close>

text \<open>
  The connection is a parameter: \<open>execute conn sql\<close> is what \<open>cursor.execute(sql)\<close>
  does on the live database, \<open>None\<close> when the statement is accepted and \<open>Some e\<close>
  when it raises \<open>e\<close>.
\<close>

definition valid_starts :: "string list" where
  "valid_starts = [''SELECT'', ''WITH'']"

definition dangerous_keywords :: "string list" where
  "dangerous_keywords =
     [''DELETE'', ''DROP'', ''INSERT'', ''UPDATE'', ''ALTER'',
      ''TRUNCATE'', ''EXEC'', ''EXECUTE'', ''CREATE'', ''REPLACE'',
      ''PRAGMA'', ''ATTACH'', ''DETACH'']"

text \<open>The loop over the blacklist: the first keyword found, in list order.\<close>

fun first_dangerous :: "string list \<Rightarrow> string \<Rightarrow> string option" where
  "first_dangerous [] q = None"
| "first_dangerous (k # ks) q = (if word_search k q then Some k else first_dangerous ks q)"

definition validate_sql_query :: "(string \<Rightarrow> exn option) \<Rightarrow> string \<Rightarrow> exn + (bool \<times> string)" where
  "validate_sql_query execute query =
     (let query_stripped = strip query;
          query_upper = upper query_stripped
      in if \<not> list_ex (\<lambda>start. prefix start query_upper) valid_starts
         then Inr (False, ''Only SELECT queries (including WITH/CTEs) are allowed.'')
         else let query_no_trailing = rstrip (rstrip_char CHR '';'' query_stripped)
              in if str_in '';'' query_no_trailing
                 then Inr (False, ''Multiple statements not allowed.'')
                 else (case first_dangerous dangerous_keywords query_upper of
                         Some keyword \<Rightarrow>
                           Inr (False, ''Dangerous keyword '' @ [CHR 0x27] @ keyword @ [CHR 0x27] @ '' detected.'')
                       | None \<Rightarrow>
                           (case execute (''EXPLAIN '' @ query) of
                              None \<Rightarrow> Inr (True, '''')
                            | Some e \<Rightarrow>
                                if exn_class_of e = Sqlite3Error
                                then Inr (False, ''Invalid SQL syntax: '' @ exn_str e)
                                else Inl e)))"

definition add_limit_if_missing :: "string \<Rightarrow> int \<Rightarrow> string" where
  "add_limit_if_missing query default_limit =
     (if str_in ''LIMIT'' (upper query) then query
      else let query_stripped = rstrip (rstrip_char CHR '';'' query)
           in query_stripped @ '' LIMIT '' @ str_int default_limit)"

text \<open>
  The specification speaks of a query that contains a limit clause. A \<open>LIMIT\<close> clause
  starts with the keyword \<open>LIMIT\<close> standing as a word of its own, in any letter case;
  \<open>has_limit_keyword\<close> is that reading, to be compared with the test the source makes.
\<close>

definition has_limit_keyword :: "string \<Rightarrow> bool" where
  "has_limit_keyword query = word_search ''LIMIT'' (upper query)"

section \<open>JSON values and the decoder handed to the action parser\<close>

text \<open>
  The parameter object of an action is a JSON object; a Python \<open>dict\<close> is modelled as
  an association list with distinct keys.
\<close>

datatype json = JNull | JBool bool | JInt int | JStr string | JArr "json list" | JObj "(string \<times> json) list"

text \<open>
  \<open>json.loads\<close> belongs to Python's library, so the action parser takes the decoder as
  a parameter: \<open>loads s\<close> is \<open>Inr v\<close> when \<open>s\<close> decodes to \<open>v\<close> and \<open>Inl e\<close> when the
  decoder raises \<open>e\<close>, which is a \<open>JSONDecodeError\<close> for a malformed text and may be
  another exception (\<open>RecursionError\<close> on very deep nesting, \<open>ValueError\<close> on an integer
  of too many digits). The decoder \<open>loads_fragment\<close> below instantiates
  that parameter on concrete texts. It covers the fragment of JSON made of objects, strings
  with the two-character escapes, and the literals \<open>true\<close>, \<open>false\<close> and \<open>null\<close>;
  numbers, arrays and \<open>\u\<close> escapes are outside the fragment and are not decoded by it.
  Of two members with the same key the later one wins, as in a Python \<open>dict\<close>.
\<close>

definition is_json_ws :: "char \<Rightarrow> bool" where
  "is_json_ws c = (c \<in> set [CHR '' '', CHR 0x09, CHR 0x0A, CHR 0x0D])"

definition skip_ws :: "string \<Rightarrow> string" where
  "skip_ws s = dropWhile is_json_ws s"

definition unescape :: "char \<Rightarrow> char option" where
  "unescape e =
     map_of [(CHR 0x22, CHR 0x22), (CHR 0x5C, CHR 0x5C), (CHR ''/'', CHR ''/''),
             (CHR ''b'', CHR 0x08), (CHR ''f'', CHR 0x0C), (CHR ''n'', CHR 0x0A),
             (CHR ''r'', CHR 0x0D), (CHR ''t'', CHR 0x09)] e"

definition is_control :: "char \<Rightarrow> bool" where
  "is_control c = ((of_char c :: nat) < 32)"

text \<open>The text after an opening quote: the decoded string and what follows the closing quote.\<close>

fun parse_string_body :: "string \<Rightarrow> (string \<times> string) option" where
  "parse_string_body [] = None"
| "parse_string_body [c] = (if c = CHR 0x22 then Some ([], []) else None)"
| "parse_string_body (c # e # cs) =
     (if c = CHR 0x22 then Some ([], e # cs)
      else if c = CHR 0x5C then
        (case unescape e of
           None \<Rightarrow> None
         | Some d \<Rightarrow> map_option (apfst ((#) d)) (parse_string_body cs))
      else if is_control c then None
      else map_option (apfst ((#) c)) (parse_string_body (e # cs)))"

fun parse_value :: "nat \<Rightarrow> string \<Rightarrow> (json \<times> string) option"
  and parse_members :: "nat \<Rightarrow> string \<Rightarrow> ((string \<times> json) list \<times> string) option" where
  "parse_value 0 s = None"
| "parse_value (Suc n) s =
     (case s of
        [] \<Rightarrow> None
      | c # cs \<Rightarrow>
          if c = CHR 0x22 then map_option (apfst JStr) (parse_string_body cs)
          else if c = CHR ''{'' then
            (case skip_ws cs of
               [] \<Rightarrow> None
             | d # ds \<Rightarrow>
                 if d = CHR ''}'' then Some (JObj [], ds)
                 else map_option (apfst JObj) (parse_members n (d # ds)))
          else if prefix ''true'' s then Some (JBool True, drop 4 s)
          else if prefix ''false'' s then Some (JBool False, drop 5 s)
          else if prefix ''null'' s then Some (JNull, drop 4 s)
          else None)"
| "parse_members 0 s = None"
| "parse_members (Suc n) s =
     (case s of
        [] \<Rightarrow> None
      | c # cs \<Rightarrow>
          if c \<noteq> CHR 0x22 then None
          else
            (case parse_string_body cs of
               None \<Rightarrow> None
             | Some (k, r1) \<Rightarrow>
                 (case skip_ws r1 of
                    [] \<Rightarrow> None
                  | c2 # r2 \<Rightarrow>
                      if c2 \<noteq> CHR '':'' then None
                      else
                        (case parse_value n (skip_ws r2) of
                           None \<Rightarrow> None
                         | Some (v, r3) \<Rightarrow>
                             (case skip_ws r3 of
                                [] \<Rightarrow> None
                              | c4 # r4 \<Rightarrow>
                                  if c4 = CHR ''}'' then Some ([(k, v)], r4)
                                  else if c4 = CHR '','' then
                                    (case parse_members n (skip_ws r4) of
                                       None \<Rightarrow> None
                                     | Some (ms, r5) \<Rightarrow>
                                         Some (if k \<in> set (map fst ms) then ms else (k, v) # ms, r5))
                                  else None)))))"

definition loads_fragment :: "string \<Rightarrow> exn + json" where
  "loads_fragment s =
     (case parse_value (length s) (skip_ws s) of
        None \<Rightarrow> Inl (Exn JSONDecodeError ''Expecting value'')
      | Some (v, r) \<Rightarrow>
          if skip_ws r = [] then Inr v else Inl (Exn JSONDecodeError ''Extra data''))"

section \<open>prompts.py: final-answer detection and the action parser\<close>

definition has_final_answer :: "string \<Rightarrow> bool" where
  "has_final_answer response = str_in ''FINAL ANSWER:'' (upper response)"

text \<open>
  \<open>re.search(r'FINAL ANSWER:\s*(.+)', response, re.IGNORECASE | re.DOTALL)\<close>.
  \<open>match_final_at s\<close> is the match that starts at the head of \<open>s\<close>, as its group 1:
  the marker in any letter case, then \<open>\s*\<close> takes the whitespace and \<open>(.+)\<close> everything
  up to the end; when only whitespace follows the marker, \<open>\s*\<close> gives its last
  character back to \<open>(.+)\<close>; when nothing follows, there is no match here.
\<close>

definition match_final_at :: "string \<Rightarrow> string option" where
  "match_final_at s =
     (if upper (take 13 s) = ''FINAL ANSWER:'' then
        (let rest = drop 13 s; body = dropWhile is_space rest
         in if body \<noteq> [] then Some body
            else if rest \<noteq> [] then Some [last rest]
            else None)
      else None)"

fun search_final :: "string \<Rightarrow> string option" where
  "search_final [] = None"
| "search_final (c # cs) =
     (case match_final_at (c # cs) of Some g \<Rightarrow> Some g | None \<Rightarrow> search_final cs)"

definition extract_final_answer :: "string \<Rightarrow> string" where
  "extract_final_answer response =
     (case search_final response of Some g \<Rightarrow> strip g | None \<Rightarrow> [])"

text \<open>
  \<open>re.search(r'ACTION:\s*(\w+)', response)\<close>: the leftmost position where the marker
  is followed by optional whitespace and at least one word character. The result is
  group 1 and the text from \<open>action_match.end()\<close> on.
\<close>

definition match_action_at :: "string \<Rightarrow> (string \<times> string) option" where
  "match_action_at s =
     (if prefix ''ACTION:'' s then
        (let rest = dropWhile is_space (drop 7 s); tool_name = takeWhile is_word_char rest
         in if tool_name \<noteq> [] then Some (tool_name, dropWhile is_word_char rest) else None)
      else None)"

fun search_action :: "string \<Rightarrow> (string \<times> string) option" where
  "search_action [] = None"
| "search_action (c # cs) =
     (case match_action_at (c # cs) of Some m \<Rightarrow> Some m | None \<Rightarrow> search_action cs)"

text \<open>
  The loop \<open>for i in range(brace_start, len(response))\<close>, run on the text from
  \<open>brace_start\<close> on; \<open>i\<close> counts from there and \<open>brace_count\<close> is the depth so far.
  The result is \<open>brace_end\<close> (relative to \<open>brace_start\<close>), \<open>None\<close> for \<open>-1\<close>.
\<close>

fun find_brace_end :: "string \<Rightarrow> nat \<Rightarrow> int \<Rightarrow> nat option" where
  "find_brace_end [] i brace_count = None"
| "find_brace_end (c # cs) i brace_count =
     (if c = CHR ''{'' then find_brace_end cs (i + 1) (brace_count + 1)
      else if c = CHR ''}'' then
        (if brace_count - 1 = 0 then Some i else find_brace_end cs (i + 1) (brace_count - 1))
      else find_brace_end cs (i + 1) brace_count)"

text \<open>
  The result \<open>(None, None)\<close> of the source is \<open>Inr None\<close> here. The source catches
  \<open>json.JSONDecodeError\<close> only: any other exception of the decoder leaves the function.
\<close>

definition extract_action_from_response ::
    "(string \<Rightarrow> exn + 'p) \<Rightarrow> string \<Rightarrow> exn + (string \<times> 'p) option" where
  "extract_action_from_response loads response =
     (case search_action response of
        None \<Rightarrow> Inr None
      | Some (tool_name, after) \<Rightarrow>
          (let from_brace = dropWhile (\<lambda>c. c \<noteq> CHR ''{'') after
           in if from_brace = [] then Inr None
              else (case find_brace_end from_brace 0 0 of
                      None \<Rightarrow> Inr None
                    | Some brace_end \<Rightarrow>
                        (let json_str = take (brace_end + 1) from_brace
                         in (case loads json_str of
                               Inr params \<Rightarrow> Inr (Some (tool_name, params))
                             | Inl e \<Rightarrow>
                                 if exn_class_of e = JSONDecodeError then Inr None else Inl e)))))"

section \<open>agent.py: the configuration and the LLM client\<close>

text \<open>
  Durations and clock readings are real numbers (Python's \<open>float\<close> seconds, taken as
  exact). The fields \<open>temperature\<close>, \<open>model_name\<close>, \<open>verbose\<close> and \<open>stop_sequences\<close> of
  \<open>AgentConfig\<close> only parameterise the provider request and the printing; they are not
  part of the model.
\<close>

record AgentConfig =
  max_iterations :: int
  min_delay_between_calls :: real
  max_retries :: int
  retry_delay :: real

text \<open>The defaults of the \<open>AgentConfig\<close> dataclass.\<close>

definition default_config :: AgentConfig where
  "default_config =
     \<lparr>max_iterations = 10, min_delay_between_calls = 20, max_retries = 3, retry_delay = 5\<rparr>"

text \<open>
  The state the client reads and writes: the wall clock \<open>time.time()\<close> and the field
  \<open>_last_api_call\<close>, which \<open>__init__\<close> sets to 0.
\<close>

record client =
  clock :: real
  last_api_call :: real

text \<open>The client of an agent just constructed, when the clock reads \<open>now\<close>.\<close>

definition fresh_client :: "real \<Rightarrow> client" where
  "fresh_client now = \<lparr>clock = now, last_api_call = 0\<rparr>"

text \<open>
  The provider is outside the program. One provider call takes some time and either
  returns the response text or raises an exception with message \<open>str(e)\<close>; an invocation
  of \<open>_call_llm\<close> is given the provider's behaviour as a function of the attempt number.
\<close>

datatype provider_result = Response string | Failure string

type_synonym provider = "int \<Rightarrow> real \<times> provider_result"

text \<open>
  What an invocation does to the outside, in order: \<open>Sleep d\<close> for \<open>time.sleep(d)\<close>, and
  \<open>ApiCall attempt t\<close> for the provider call of the given attempt, stamped with the clock
  reading \<open>t\<close> that was stored in \<open>_last_api_call\<close> just before it.
\<close>

datatype event = Sleep real | ApiCall int real

definition daily_limit_keywords :: "string list" where
  "daily_limit_keywords = [''daily limit'', ''quota exceeded'', ''daily quota'', ''rate_limit_exceeded'']"

definition rate_limit_keywords :: "string list" where
  "rate_limit_keywords = [''rate limit'', ''too many requests'', ''requests per minute'']"

text \<open>\<open>any(keyword in error_str for keyword in keywords)\<close> with \<open>error_str = str(e).lower()\<close>.\<close>

definition any_keyword :: "string list \<Rightarrow> string \<Rightarrow> bool" where
  "any_keyword keywords msg = list_ex (\<lambda>keyword. str_in keyword (lower msg)) keywords"

text \<open>
  The message of the daily-limit error. In the source the pieces are adjacent string
  literals, which Python joins before it applies \<open>*\<close> and \<open>+\<close>: the expression is
  \<open>"\n" + "="*70 + A*70 + B*70\<close>, where \<open>A\<close> is the headline block ending in \<open>=\<close> and
  \<open>B\<close> the block from the explanation to the original error, ending in \<open>=\<close>.
\<close>

definition daily_limit_headline :: string where
  "daily_limit_headline =
     [CHR 0x0A] @ [CHR 0xF0, CHR 0x9F, CHR 0x9B, CHR 0x91] @ '' DAILY TOKEN LIMIT REACHED!''
     @ [CHR 0x0A] @ ''=''"

definition daily_limit_details :: "string \<Rightarrow> string" where
  "daily_limit_details msg =
     [CHR 0x0A] @ ''Groq daily token limit has been exceeded.'' @ [CHR 0x0A]
     @ ''This limit resets daily (usually at midnight UTC).'' @ [CHR 0x0A, CHR 0x0A]
     @ ''Actions:'' @ [CHR 0x0A]
     @ ''1. Wait for limit reset (check Groq dashboard)'' @ [CHR 0x0A]
     @ ''2. Or switch to another provider (set llm_provider='' @ [CHR 0x27] @ ''gemini''
     @ [CHR 0x27] @ '')'' @ [CHR 0x0A]
     @ ''3. Or use a different API key if available'' @ [CHR 0x0A, CHR 0x0A]
     @ ''Original error: '' @ msg @ [CHR 0x0A]
     @ ''=''"

definition daily_limit_error_msg :: "string \<Rightarrow> string" where
  "daily_limit_error_msg msg =
     [CHR 0x0A] @ replicate 70 CHR ''=''
     @ concat (replicate 70 daily_limit_headline)
     @ concat (replicate 70 (daily_limit_details msg))"

definition persistent_rate_limit_msg :: "AgentConfig \<Rightarrow> string" where
  "persistent_rate_limit_msg cfg = ''Rate limit persists after '' @ str_int (max_retries cfg) @ '' retries''"

text \<open>\<open>time.sleep(d)\<close> raises \<open>ValueError\<close> on a negative length and advances the clock otherwise.\<close>

definition sleep :: "real \<Rightarrow> client \<Rightarrow> exn + client" where
  "sleep d st =
     (if d < 0 then Inl (Exn ValueError ''sleep length must be non-negative'')
      else Inr (st\<lparr>clock := clock st + d\<rparr>))"

definition backoff :: "AgentConfig \<Rightarrow> int \<Rightarrow> real" where
  "backoff cfg attempt = retry_delay cfg * 2 ^ nat (attempt - 1)"

text \<open>
  The loop \<open>for attempt in range(1, self.config.max_retries + 1)\<close>, on the attempts still
  to make. The result is what the invocation returns or raises, the client afterwards, and
  the events in order. Falling out of the loop reaches the final \<open>raise\<close>.
\<close>

fun retry_loop :: "AgentConfig \<Rightarrow> provider \<Rightarrow> int list \<Rightarrow> client \<Rightarrow> (exn + string) \<times> client \<times> event list" where
  "retry_loop cfg prov [] st = (Inl (Exn RuntimeError ''Failed to call LLM after max retries''), st, [])"
| "retry_loop cfg prov (attempt # rest) st =
     (let stamp = clock st;
          st1 = st\<lparr>last_api_call := stamp\<rparr>;
          st2 = st1\<lparr>clock := clock st1 + fst (prov attempt)\<rparr>
      in case snd (prov attempt) of
           Response text \<Rightarrow> (Inr text, st2, [ApiCall attempt stamp])
         | Failure msg \<Rightarrow>
             if any_keyword daily_limit_keywords msg
             then (Inl (Exn RuntimeError (daily_limit_error_msg msg)), st2, [ApiCall attempt stamp])
             else if any_keyword rate_limit_keywords msg
             then
               (if attempt < max_retries cfg
                then (case sleep (backoff cfg attempt) st2 of
                        Inl e \<Rightarrow> (Inl e, st2, [ApiCall attempt stamp])
                      | Inr st3 \<Rightarrow>
                          (case retry_loop cfg prov rest st3 of
                             (r, st', ev) \<Rightarrow>
                               (r, st', ApiCall attempt stamp # Sleep (backoff cfg attempt) # ev)))
                else (Inl (Exn RuntimeError (persistent_rate_limit_msg cfg)), st2,
                      [ApiCall attempt stamp]))
             else
               (if attempt < max_retries cfg
                then (case sleep (backoff cfg attempt) st2 of
                        Inl e \<Rightarrow> (Inl e, st2, [ApiCall attempt stamp])
                      | Inr st3 \<Rightarrow>
                          (case retry_loop cfg prov rest st3 of
                             (r, st', ev) \<Rightarrow>
                               (r, st', ApiCall attempt stamp # Sleep (backoff cfg attempt) # ev)))
                else (Inl (Exn ProviderError msg), st2, [ApiCall attempt stamp])))"

definition call_llm :: "AgentConfig \<Rightarrow> provider \<Rightarrow> client \<Rightarrow> (exn + string) \<times> client \<times> event list" where
  "call_llm cfg prov st =
     (let time_since_last_call = clock st - last_api_call st;
          sleep_time = min_delay_between_calls cfg - time_since_last_call;
          waited = time_since_last_call < min_delay_between_calls cfg;
          st1 = (if waited then st\<lparr>clock := clock st + sleep_time\<rparr> else st)
      in case retry_loop cfg prov [1..max_retries cfg] st1 of
           (r, st', ev) \<Rightarrow> (r, st', (if waited then [Sleep sleep_time] else []) @ ev))"

text \<open>
  Several invocations on one client, one after the other. Each comes with the time that
  passes before it (the controller parsing and running a tool) and its provider behaviour.
\<close>

fun call_sequence :: "AgentConfig \<Rightarrow> (real \<times> provider) list \<Rightarrow> client \<Rightarrow> event list" where
  "call_sequence cfg [] st = []"
| "call_sequence cfg ((idle, prov) # later) st =
     (case call_llm cfg prov (st\<lparr>clock := clock st + idle\<rparr>) of
        (r, st', ev) \<Rightarrow> ev @ call_sequence cfg later st')"

text \<open>Readings of an event list: the provider calls with their stamps, and the sleeps.\<close>

fun api_calls :: "event list \<Rightarrow> (int \<times> real) list" where
  "api_calls [] = []"
| "api_calls (ApiCall attempt t # ev) = (attempt, t) # api_calls ev"
| "api_calls (Sleep d # ev) = api_calls ev"

text \<open>The sleep, if any, that directly precedes the provider call of attempt \<open>k\<close>.\<close>

fun delay_before :: "int \<Rightarrow> event list \<Rightarrow> real option" where
  "delay_before k (Sleep d # ApiCall attempt t # ev) =
     (if attempt = k then Some d else delay_before k ev)"
| "delay_before k (e # ev) = delay_before k ev"
| "delay_before k [] = None"

section \<open>tools.py: the database tools\<close>

text \<open>
  The database is outside the program. A connection is what \<open>cursor.execute(sql, args)\<close>
  does on it: it raises, or yields the column names of \<open>cursor.description\<close> and the rows
  of \<open>fetchall()\<close>. Column values are \<open>None\<close>, integers and text.
\<close>

datatype sql_value = SqlNull | SqlInt int | SqlText string

type_synonym result_set = "string list \<times> sql_value list list"

type_synonym db_conn = "string \<Rightarrow> sql_value list \<Rightarrow> exn + result_set"

text \<open>\<open>str(val)\<close> and the truth value of a column value.\<close>

fun str_sql :: "sql_value \<Rightarrow> string" where
  "str_sql SqlNull = ''None''"
| "str_sql (SqlInt i) = str_int i"
| "str_sql (SqlText s) = s"

fun truthy :: "sql_value \<Rightarrow> bool" where
  "truthy SqlNull = False"
| "truthy (SqlInt i) = (i \<noteq> 0)"
| "truthy (SqlText s) = (s \<noteq> [])"

fun join :: "string \<Rightarrow> string list \<Rightarrow> string" where
  "join sep [] = []"
| "join sep [x] = x"
| "join sep (x # y # ys) = x @ sep @ join sep (y # ys)"

definition bind_exn :: "exn + 'a \<Rightarrow> ('a \<Rightarrow> exn + 'b) \<Rightarrow> exn + 'b" where
  "bind_exn r f = (case r of Inl e \<Rightarrow> Inl e | Inr x \<Rightarrow> f x)"

fun map_exn :: "('a \<Rightarrow> exn + 'b) \<Rightarrow> 'a list \<Rightarrow> exn + 'b list" where
  "map_exn f [] = Inr []"
| "map_exn f (x # xs) = bind_exn (f x) (\<lambda>y. bind_exn (map_exn f xs) (\<lambda>ys. Inr (y # ys)))"

text \<open>\<open>except sqlite3.Error as e: return prefix + str(e)\<close>; any other exception passes.\<close>

definition except_sqlite :: "string \<Rightarrow> exn + string \<Rightarrow> exn + string" where
  "except_sqlite pre r =
     (case r of
        Inr text \<Rightarrow> Inr text
      | Inl e \<Rightarrow> if exn_class_of e = Sqlite3Error then Inr (pre @ exn_str e) else Inl e)"

text \<open>\<open>row[i]\<close> on a row tuple.\<close>

definition item :: "sql_value list \<Rightarrow> nat \<Rightarrow> exn + sql_value" where
  "item row i = (if i < length row then Inr (row ! i) else Inl (Exn IndexError ''tuple index out of range''))"

text \<open>
  \<open>re.match(r'^[a-zA-Z_][a-zA-Z0-9_]*$', identifier)\<close>; Python's \<open>$\<close> also matches just
  before a newline that ends the text.
\<close>

definition is_ident :: "string \<Rightarrow> bool" where
  "is_ident s =
     (case s of
        [] \<Rightarrow> False
      | c # cs \<Rightarrow> c \<in> set (lower_letters @ upper_letters @ ''_'') \<and> list_all is_word_char cs)"

definition matches_identifier :: "string \<Rightarrow> bool" where
  "matches_identifier s = (is_ident s \<or> (s \<noteq> [] \<and> last s = CHR 0x0A \<and> is_ident (butlast s)))"

definition sanitize_identifier :: "string \<Rightarrow> exn + string" where
  "sanitize_identifier identifier =
     (if \<not> matches_identifier identifier
      then Inl (Exn ValueError
             (''Invalid identifier '' @ [CHR 0x27] @ identifier @ [CHR 0x27]
              @ ''. Only alphanumeric characters and underscores allowed.''))
      else Inr identifier)"

definition list_tables_sql :: string where
  "list_tables_sql =
     [CHR 0x0A] @ ''            SELECT name FROM sqlite_master '' @ [CHR 0x0A]
     @ ''            WHERE type='' @ [CHR 0x27] @ ''table'' @ [CHR 0x27] @ '' '' @ [CHR 0x0A]
     @ ''            ORDER BY name'' @ [CHR 0x0A] @ ''        ''"

definition table_exists_sql :: string where
  "table_exists_sql =
     [CHR 0x0A] @ ''            SELECT name FROM sqlite_master '' @ [CHR 0x0A]
     @ ''            WHERE type='' @ [CHR 0x27] @ ''table'' @ [CHR 0x27] @ '' AND name=?'' @ [CHR 0x0A]
     @ ''        ''"

text \<open>\<open>', '.join(table_names)\<close> raises \<open>TypeError\<close> on an item that is not text.\<close>

definition text_item :: "sql_value \<Rightarrow> exn + string" where
  "text_item v =
     (case v of
        SqlText s \<Rightarrow> Inr s
      | _ \<Rightarrow> Inl (Exn TypeError ''sequence item: expected str instance''))"

definition list_tables :: "db_conn \<Rightarrow> exn + string" where
  "list_tables db =
     except_sqlite ''Error listing tables: ''
       (bind_exn (db list_tables_sql []) (\<lambda>(cols, tables).
          if tables = [] then Inr ''No tables found in database.''
          else bind_exn (map_exn (\<lambda>table. item table 0) tables) (\<lambda>firsts.
               bind_exn (map_exn text_item firsts) (\<lambda>table_names.
                 Inr (''Tables in database: '' @ join '', '' table_names)))))"

definition column_line :: "sql_value list \<Rightarrow> exn + string" where
  "column_line col =
     bind_exn (item col 1) (\<lambda>col_name.
     bind_exn (item col 2) (\<lambda>col_type.
     bind_exn (item col 3) (\<lambda>not_null_flag.
     bind_exn (item col 5) (\<lambda>pk_flag.
       Inr (''  - '' @ str_sql col_name @ '' ('' @ str_sql col_type @ '')''
            @ (if truthy not_null_flag then '' NOT NULL'' else [])
            @ (if truthy pk_flag then '' PRIMARY KEY'' else []))))))"

text \<open>
  \<open>describe_table(db_conn, table_name)\<close>. The argument comes from the decoded parameter
  object, so it is a JSON value; \<open>re.match\<close> raises \<open>TypeError\<close> on one that is not text.
  \<open>cursor.fetchone()\<close> is the first row, or \<open>None\<close> when there is none.
\<close>

definition describe_table :: "db_conn \<Rightarrow> json \<Rightarrow> exn + string" where
  "describe_table db table_name =
     except_sqlite ''Error describing table: ''
       (case table_name of
          JStr name \<Rightarrow>
            (case sanitize_identifier name of
               Inl e \<Rightarrow> Inr (''Error: '' @ exn_str e)
             | Inr safe_table_name \<Rightarrow>
                 bind_exn (db table_exists_sql [SqlText safe_table_name]) (\<lambda>(cols, found).
                   if found = [] \<or> hd found = []
                   then Inr (''Error: Table '' @ [CHR 0x27] @ name @ [CHR 0x27] @ '' does not exist.'')
                   else
                     bind_exn (db (''PRAGMA table_info('' @ safe_table_name @ '')'') []) (\<lambda>(cols2, columns).
                     bind_exn (db (''SELECT COUNT(*) FROM '' @ safe_table_name) []) (\<lambda>(cols3, counted).
                     bind_exn (case counted of
                                 [] \<Rightarrow> Inl (Exn TypeError
                                              (''NoneType object is not subscriptable''))
                               | row # _ \<Rightarrow> item row 0) (\<lambda>row_count.
                     bind_exn (map_exn column_line columns) (\<lambda>column_lines.
                       Inr (join [CHR 0x0A]
                              ([''Table: '' @ name, ''Row count: '' @ str_sql row_count, ''Columns:'']
                               @ column_lines))))))))
        | _ \<Rightarrow> Inl (Exn TypeError ''expected string or bytes-like object''))"

text \<open>
  The body of \<open>query_database\<close> inside its \<open>try\<close>. \<open>query.strip()\<close> raises
  \<open>AttributeError\<close> on a parameter that is not text.
\<close>

definition query_database_body :: "db_conn \<Rightarrow> json \<Rightarrow> exn + string" where
  "query_database_body db query =
     (case query of
        JStr q \<Rightarrow>
          bind_exn (validate_sql_query (\<lambda>sql. case db sql [] of Inl e \<Rightarrow> Some e | Inr _ \<Rightarrow> None) q)
            (\<lambda>(is_valid, error_msg).
              if \<not> is_valid then Inr (''Query validation failed: '' @ error_msg)
              else
                (let query_with_limit = add_limit_if_missing q 100
                 in bind_exn (db query_with_limit []) (\<lambda>(column_names, results).
                      if results = [] then Inr ''Query executed successfully but returned no results.''
                      else
                        (let header = join '' | '' column_names;
                             display_limit = min 20 (length results)
                         in Inr (join [CHR 0x0A]
                                  ([''Query returned '' @ str_int (int (length results)) @ '' row(s):'',
                                    [], header, replicate (length header) CHR ''-'']
                                   @ map (\<lambda>row. join '' | '' (map str_sql row)) (take display_limit results)
                                   @ (if length results > display_limit
                                      then [''... ('' @ str_int (int (length results - display_limit))
                                            @ '' more rows not shown)'']
                                      else [])))))))
      | _ \<Rightarrow> Inl (Exn AttributeError (''object has no attribute '' @ [CHR 0x27] @ ''strip'' @ [CHR 0x27])))"

definition query_database :: "db_conn \<Rightarrow> json \<Rightarrow> exn + string" where
  "query_database db query =
     (case query_database_body db query of
        Inr text \<Rightarrow> Inr text
      | Inl e \<Rightarrow>
          if exn_class_of e = Sqlite3Error then Inr (''Database error: '' @ exn_str e)
          else Inr (''Unexpected error: '' @ exn_str e))"

text \<open>
  Calling \<open>f(db_conn, **kwargs)\<close>: the interpreter raises \<open>TypeError\<close> on a keyword that
  repeats the bound first argument, on a keyword the function does not have, and on a
  missing argument.
\<close>

fun check_kwargs :: "string \<Rightarrow> string list \<Rightarrow> string list \<Rightarrow> exn option" where
  "check_kwargs fname names [] = None"
| "check_kwargs fname names (k # ks) =
     (if k = ''db_conn''
      then Some (Exn TypeError (fname @ ''() got multiple values for argument '' @ [CHR 0x27] @ k @ [CHR 0x27]))
      else if k \<notin> set names
      then Some (Exn TypeError (fname @ ''() got an unexpected keyword argument '' @ [CHR 0x27] @ k @ [CHR 0x27]))
      else check_kwargs fname names ks)"

definition call_no_arg :: "string \<Rightarrow> (exn + string) \<Rightarrow> (string \<times> json) list \<Rightarrow> exn + string" where
  "call_no_arg fname f kwargs =
     (case check_kwargs fname [] (map fst kwargs) of Some e \<Rightarrow> Inl e | None \<Rightarrow> f)"

definition call_one_arg ::
    "string \<Rightarrow> string \<Rightarrow> (json \<Rightarrow> exn + string) \<Rightarrow> (string \<times> json) list \<Rightarrow> exn + string" where
  "call_one_arg fname pname f kwargs =
     (case check_kwargs fname [pname] (map fst kwargs) of
        Some e \<Rightarrow> Inl e
      | None \<Rightarrow>
          (case map_of kwargs pname of
             None \<Rightarrow> Inl (Exn TypeError (fname @ ''() missing 1 required positional argument: ''
                                         @ [CHR 0x27] @ pname @ [CHR 0x27]))
           | Some v \<Rightarrow> f v))"

text \<open>
  The registry: each tool under its name, in the order of the source, as the function of
  its keyword arguments.
\<close>

type_synonym tool = "(string \<times> json) list \<Rightarrow> exn + string"

definition create_tool_registry :: "db_conn \<Rightarrow> (string \<times> tool) list" where
  "create_tool_registry db =
     [(''list_tables'', call_no_arg ''list_tables'' (list_tables db)),
      (''describe_table'', call_one_arg ''describe_table'' ''table_name'' (describe_table db)),
      (''query_database'', call_one_arg ''query_database'' ''query'' (query_database db))]"

section \<open>agent.py: the ReAct loop\<close>

record message =
  role :: string
  content :: string

text \<open>
  The agent after \<open>__init__\<close>: its configuration, the system prompt it built and its
  tool dictionary. The model's behaviour is a parameter of a run: \<open>llm history\<close> is
  how the provider answers the attempts of the invocation made with that history.
\<close>

record agent =
  config :: AgentConfig
  system_prompt :: string
  tools_dict :: "(string \<times> tool) list"

text \<open>
  The variables of \<open>run\<close>: the history, the client state behind \<open>self\<close>, the local
  \<open>response\<close> (unbound before the first assignment), and, for the claims about which
  tools run, the tools called so far with their parameters.
\<close>

record run_state =
  rs_history :: "message list"
  rs_client :: client
  rs_response :: "string option"
  rs_executed :: "(string \<times> json) list"

text \<open>\<open>tool(**params)\<close>: the parameters must be a mapping.\<close>

definition call_tool :: "tool \<Rightarrow> json \<Rightarrow> exn + string" where
  "call_tool t params =
     (case params of
        JObj kwargs \<Rightarrow> t kwargs
      | _ \<Rightarrow> Inl (Exn TypeError ''argument after ** must be a mapping''))"

text \<open>Step 4 of the loop: the observation for a parsed action.\<close>

definition execute_tool :: "(string \<times> tool) list \<Rightarrow> string \<Rightarrow> json \<Rightarrow> string" where
  "execute_tool tools action_name params =
     (case map_of tools action_name of
        None \<Rightarrow>
          ''Error: '' @ (''Unknown tool: '' @ action_name) @ ''. Available tools: ''
          @ join '', '' (map fst tools)
      | Some t \<Rightarrow>
          (case call_tool t params of
             Inr tool_result \<Rightarrow> tool_result
           | Inl e \<Rightarrow> ''Tool execution error: '' @ exn_str e))"

definition max_iterations_msg :: "AgentConfig \<Rightarrow> string \<Rightarrow> string" where
  "max_iterations_msg cfg last_response =
     ''Agent stopped: Reached maximum iterations ('' @ str_int (max_iterations cfg)
     @ ''). Last response:'' @ [CHR 0x0A, CHR 0x0A] @ last_response"

text \<open>
  The loop \<open>for iteration in range(1, self.config.max_iterations + 1)\<close>, on the
  iterations still to run. After the loop the source formats \<open>response\<close>, which raises
  \<open>UnboundLocalError\<close> (a \<open>NameError\<close>) when no iteration has run. The call of the
  action parser stands outside every \<open>try\<close>: an exception it lets through leaves \<open>run\<close>.
\<close>

fun run_loop ::
    "(string \<Rightarrow> exn + json) \<Rightarrow> (message list \<Rightarrow> provider) \<Rightarrow> agent \<Rightarrow> int list \<Rightarrow> run_state
       \<Rightarrow> (exn + string) \<times> run_state" where
  "run_loop loads llm ag [] rs =
     (case rs_response rs of
        None \<Rightarrow> (Inl (Exn NameError ''cannot access local variable response''), rs)
      | Some last_response \<Rightarrow> (Inr (max_iterations_msg (config ag) last_response), rs))"
| "run_loop loads llm ag (iteration # rest) rs =
     (case call_llm (config ag) (llm (rs_history rs)) (rs_client rs) of
        (Inl e, cl, ev) \<Rightarrow>
          (Inr (''Error: '' @ (''LLM call failed: '' @ exn_str e)), rs\<lparr>rs_client := cl\<rparr>)
      | (Inr reply, cl, ev) \<Rightarrow>
          (let rs1 = rs\<lparr>rs_client := cl,
                         rs_response := Some reply,
                         rs_history := rs_history rs @ [\<lparr>role = ''assistant'', content = reply\<rparr>]\<rparr>
           in if has_final_answer reply then (Inr (extract_final_answer reply), rs1)
              else
                (case extract_action_from_response loads reply of
                   Inl e \<Rightarrow> (Inl e, rs1)
                 | Inr None \<Rightarrow>
                     run_loop loads llm ag rest
                       (rs1\<lparr>rs_history := rs_history rs1 @
                          [\<lparr>role = ''user'',
                            content = ''Error: Expected ACTION or FINAL ANSWER. Please provide one.''\<rparr>]\<rparr>)
                 | Inr (Some (action_name, params)) \<Rightarrow>
                     (let observation = execute_tool (tools_dict ag) action_name params
                      in run_loop loads llm ag rest
                           (rs1\<lparr>rs_history := rs_history rs1 @
                                  [\<lparr>role = ''user'', content = ''OBSERVATION: '' @ observation\<rparr>],
                                rs_executed :=
                                  rs_executed rs1 @
                                  (if action_name \<in> set (map fst (tools_dict ag))
                                   then [(action_name, params)] else [])\<rparr>)))))"

definition run ::
    "(string \<Rightarrow> exn + json) \<Rightarrow> (message list \<Rightarrow> provider) \<Rightarrow> agent \<Rightarrow> client \<Rightarrow> string
       \<Rightarrow> (exn + string) \<times> run_state" where
  "run loads llm ag cl user_query =
     run_loop loads llm ag [1..max_iterations (config ag)]
       \<lparr>rs_history = [\<lparr>role = ''system'', content = system_prompt ag\<rparr>,
                      \<lparr>role = ''user'', content = user_query\<rparr>],
        rs_client = cl, rs_response = None, rs_executed = []\<rparr>"

section \<open>api.py: the run with full logging\<close>

text \<open>
  One entry of \<open>steps\<close> and the returned envelope. The \<open>timestamp\<close> of a step is the
  wall-clock time as text and is left out; \<open>step_final_answer\<close> is the key
  \<open>final_answer\<close> that only a final step has.
\<close>

record step_data =
  step_iteration :: int
  step_type :: "string option"
  step_thought :: string
  step_action :: string
  step_action_params :: json
  step_observation :: string
  step_raw_llm_response :: string
  step_final_answer :: "string option"

record query_result =
  res_final_answer :: string
  res_steps :: "step_data list"
  res_iterations :: int
  res_status :: string

text \<open>\<open>s.split("ACTION:")[0]\<close> and \<open>s.replace("THOUGHT:", "")\<close>.\<close>

fun before_action :: "string \<Rightarrow> string" where
  "before_action [] = []"
| "before_action (c # cs) = (if prefix ''ACTION:'' (c # cs) then [] else c # before_action cs)"

fun remove_thought :: "string \<Rightarrow> string" where
  "remove_thought [] = []"
| "remove_thought (c # cs) =
     (if prefix ''THOUGHT:'' (c # cs) then remove_thought (drop 7 cs) else c # remove_thought cs)"

text \<open>
  The tool call of the logging loop, on a fresh connection: \<open>list_tables(db_conn)\<close>,
  \<open>describe_table(db_conn, **params)\<close>, \<open>query_database(db_conn, **params)\<close>, and any
  exception turned into text.
\<close>

definition api_execute_tool :: "db_conn \<Rightarrow> string \<Rightarrow> json \<Rightarrow> string" where
  "api_execute_tool db action_name params =
     (case (if action_name = ''list_tables'' then list_tables db
            else if action_name = ''describe_table''
            then call_tool (call_one_arg ''describe_table'' ''table_name'' (describe_table db)) params
            else if action_name = ''query_database''
            then call_tool (call_one_arg ''query_database'' ''query'' (query_database db)) params
            else Inr (''Unknown tool: '' @ action_name)) of
        Inr observation \<Rightarrow> observation
      | Inl e \<Rightarrow> ''Tool error: '' @ exn_str e)"

text \<open>The \<open>return\<close> after the loop, reached when the loop runs out and on \<open>break\<close>.\<close>

definition after_loop :: "agent \<Rightarrow> step_data list \<Rightarrow> query_result" where
  "after_loop ag steps =
     \<lparr>res_final_answer = ''Max iterations reached without final answer'',
      res_steps = steps,
      res_iterations = max_iterations (config ag),
      res_status = ''max_iterations''\<rparr>"

fun logging_loop ::
    "(string \<Rightarrow> exn + json) \<Rightarrow> (message list \<Rightarrow> provider) \<Rightarrow> agent \<Rightarrow> db_conn \<Rightarrow> int list
       \<Rightarrow> message list \<Rightarrow> client \<Rightarrow> step_data list \<Rightarrow> query_result \<times> client" where
  "logging_loop loads llm ag db [] history cl steps = (after_loop ag steps, cl)"
| "logging_loop loads llm ag db (iteration # rest) history cl steps =
     (let step0 = \<lparr>step_iteration = iteration, step_type = None, step_thought = [],
                   step_action = [], step_action_params = JObj [], step_observation = [],
                   step_raw_llm_response = [], step_final_answer = None\<rparr>
      in case call_llm (config ag) (llm history) cl of
           (Inl e, cl', ev) \<Rightarrow>
             (after_loop ag
                (steps @ [step0\<lparr>step_type := Some ''ERROR'', step_observation := exn_str e\<rparr>]), cl')
         | (Inr llm_response, cl', ev) \<Rightarrow>
             (let step1 = step0\<lparr>step_raw_llm_response := llm_response\<rparr>;
                  history1 = history @ [\<lparr>role = ''assistant'', content = llm_response\<rparr>]
              in if has_final_answer llm_response
                 then
                   (let final_answer = extract_final_answer llm_response
                    in (\<lparr>res_final_answer = final_answer,
                         res_steps = steps @ [step1\<lparr>step_type := Some ''FINAL_ANSWER'',
                                                    step_final_answer := Some final_answer\<rparr>],
                         res_iterations = iteration,
                         res_status = ''success''\<rparr>, cl'))
                 else
                   (case extract_action_from_response loads llm_response of
                      Inl e \<Rightarrow>
                        (after_loop ag
                           (steps @ [step1\<lparr>step_type := Some ''ERROR'',
                                            step_observation := exn_str e\<rparr>]), cl')
                    | Inr None \<Rightarrow>
                        logging_loop loads llm ag db rest history1 cl'
                          (steps @ [step1\<lparr>step_type := Some ''ERROR'',
                                           step_observation := ''No valid ACTION found in LLM response''\<rparr>])
                    | Inr (Some (action_name, params)) \<Rightarrow>
                        (let step2 = (if str_in ''THOUGHT:'' llm_response
                                      then step1\<lparr>step_thought :=
                                             strip (remove_thought (before_action llm_response))\<rparr>
                                      else step1);
                             step3 = step2\<lparr>step_type := Some ''REACT_CYCLE'',
                                           step_action := action_name,
                                           step_action_params := params\<rparr>;
                             observation = api_execute_tool db action_name params
                         in logging_loop loads llm ag db rest
                              (history1 @ [\<lparr>role = ''user'', content = ''OBSERVATION: '' @ observation\<rparr>])
                              cl'
                              (steps @ [step3\<lparr>step_observation := observation\<rparr>])))))"

definition run_query_with_full_logging ::
    "(string \<Rightarrow> exn + json) \<Rightarrow> (message list \<Rightarrow> provider) \<Rightarrow> agent \<Rightarrow> db_conn \<Rightarrow> client \<Rightarrow> string
       \<Rightarrow> query_result \<times> client" where
  "run_query_with_full_logging loads llm ag db cl query =
     logging_loop loads llm ag db [1..max_iterations (config ag)]
       [\<lparr>role = ''system'', content = system_prompt ag\<rparr>, \<lparr>role = ''user'', content = query\<rparr>]
       cl []"

section \<open>Notions used by the statements\<close>

text \<open>
  The exception that ends an invocation whose last allowed attempt failed with a message
  that holds no daily-limit keyword: the persistent rate limit error for a throttling
  message, the provider's own exception otherwise.
\<close>

definition final_error :: "AgentConfig \<Rightarrow> string \<Rightarrow> exn" where
  "final_error cfg msg =
     (if any_keyword rate_limit_keywords msg then Exn RuntimeError (persistent_rate_limit_msg cfg)
      else Exn ProviderError msg)"











section \<open>Concrete inputs\<close>

text \<open>
  Providers for the examples: one that fails every attempt with the same message after one
  second, and one that answers the attempts from a list, one second each.
\<close>

definition always_fails :: "string \<Rightarrow> provider" where
  "always_fails msg attempt = (1, Failure msg)"

definition scripted :: "provider_result list \<Rightarrow> provider" where
  "scripted results attempt =
     (1, if 1 \<le> attempt \<and> nat (attempt - 1) < length results then results ! nat (attempt - 1)
         else Failure ''Connection reset'')"


text \<open>
  Two invocations on a fresh client: the first is throttled once and then answered, the
  second is answered at once, two seconds after the first returned.
\<close>

definition example_invocations :: "(real \<times> provider) list" where
  "example_invocations =
     [(0, scripted [Failure ''Rate limit reached'', Response ''THOUGHT: count the rows'']),
      (2, scripted [Response ''FINAL ANSWER: 8''])]"



text \<open>
  A database with the single table \<open>employees\<close>, as far as the examples consult it, and
  an agent on it with the default configuration.
\<close>

definition example_db :: db_conn where
  "example_db sql args =
     (if sql = table_exists_sql
      then (if args = [SqlText ''employees''] then Inr ([''name''], [[SqlText ''employees'']])
            else Inr ([''name''], []))
      else if sql = list_tables_sql then Inr ([''name''], [[SqlText ''employees'']])
      else Inl (Exn Sqlite3Error ''no such table''))"

definition example_agent :: agent where
  "example_agent =
     \<lparr>config = default_config, system_prompt = ''You are a SQL Database Agent.'',
      tools_dict = create_tool_registry example_db\<rparr>"



definition both_reply :: string where
  \<open>both_reply = ''ACTION: describe_table{"table_name": "employees"}'' @ [CHR 0x0A] @ ''Final Answer: There are 8 employees.''\<close>

definition both_llm :: "message list \<Rightarrow> provider" where
  "both_llm history = scripted [Response both_reply]"

definition quota_llm :: "message list \<Rightarrow> provider" where
  "quota_llm history = always_fails ''Daily limit reached''"

section \<open>Facts about the string primitives\<close>

lemmas char_tables = lower_letters_def upper_letters_def digits_def

lemma str_in_sublist: "str_in sub s = sublist sub s"
  by (induction s) (auto simp: sublist_Cons_right)

lemma str_in_iff: "str_in sub s \<longleftrightarrow> (\<exists>p t. s = p @ sub @ t)"
  by (simp add: str_in_sublist sublist_def)


lemma upper_append: "upper (a @ b) = upper a @ upper b"
  by (simp add: upper_def)



section \<open>The SQL validator on the documented queries\<close>

text \<open>
  C4. The validator rejects \<open>DROP TABLE x\<close>, \<open>SELECT * FROM x; DROP TABLE x\<close> and
  \<open>select 1; select 2\<close>, whatever the connection does, and it accepts \<open>SELECT 1\<close> and
  \<open>WITH t AS (SELECT 1) SELECT * FROM t\<close> on a connection whose \<open>EXPLAIN\<close> of them does
  not raise. The reasons show the order of the layers and that the first failure decides:
  \<open>DROP TABLE x\<close> also holds a blacklisted keyword (layer 3) and is rejected by layer 1;
  \<open>SELECT * FROM x; DROP TABLE x\<close> also holds one and is rejected by layer 2; and no
  rejection depends on \<open>execute\<close>, so the connection (layer 4) is not consulted.
\<close>

theorem validate_sql_query_documented:
  "validate_sql_query execute ''DROP TABLE x''
     = Inr (False, ''Only SELECT queries (including WITH/CTEs) are allowed.'')
   \<and> validate_sql_query execute ''SELECT * FROM x; DROP TABLE x''
     = Inr (False, ''Multiple statements not allowed.'')
   \<and> validate_sql_query execute ''select 1; select 2''
     = Inr (False, ''Multiple statements not allowed.'')
   \<and> (execute ''EXPLAIN SELECT 1'' = None
        \<longrightarrow> validate_sql_query execute ''SELECT 1'' = Inr (True, []))
   \<and> (execute ''EXPLAIN WITH t AS (SELECT 1) SELECT * FROM t'' = None
        \<longrightarrow> validate_sql_query execute ''WITH t AS (SELECT 1) SELECT * FROM t'' = Inr (True, []))"
proof (intro conjI impI)
  note ev = validate_sql_query_def strip_def lstrip_def rstrip_def rstrip_char_def is_space_def
    upper_def upper_char_def valid_starts_def char_tables
  show "validate_sql_query execute ''DROP TABLE x''
     = Inr (False, ''Only SELECT queries (including WITH/CTEs) are allowed.'')"
    by (simp add: ev)
  show "validate_sql_query execute ''SELECT * FROM x; DROP TABLE x''
     = Inr (False, ''Multiple statements not allowed.'')"
    by (simp add: ev)
  show "validate_sql_query execute ''select 1; select 2''
     = Inr (False, ''Multiple statements not allowed.'')"
    by (simp add: ev)
  note ev4 = ev dangerous_keywords_def word_search_def boundary_after_def is_word_char_def
  show "validate_sql_query execute ''SELECT 1'' = Inr (True, [])"
    if "execute ''EXPLAIN SELECT 1'' = None"
    using that by (simp add: ev4)
  show "validate_sql_query execute ''WITH t AS (SELECT 1) SELECT * FROM t'' = Inr (True, [])"
    if "execute ''EXPLAIN WITH t AS (SELECT 1) SELECT * FROM t'' = None"
    using that by (simp add: ev4)
qed

theorem validate_sql_query_documented_witness:
  "validate_sql_query (\<lambda>sql. None) ''SELECT 1'' = Inr (True, [])
   \<and> validate_sql_query (\<lambda>sql. None) ''WITH t AS (SELECT 1) SELECT * FROM t'' = Inr (True, [])"
  using validate_sql_query_documented [of "\<lambda>sql. None"] by simp

section \<open>Final-answer detection\<close>



section \<open>The row cap\<close>

text \<open>
  C8 on the code. The transform looks for the letters \<open>LIMIT\<close> anywhere in the
  upper-cased query, not for a limit clause: the query \<open>SELECT credit_limit FROM customers\<close>
  has no \<open>LIMIT\<close> keyword and comes back without a row cap, where
  \<open>SELECT name FROM customers;\<close> loses its terminator and gets one. Applying the
  transform twice is the same as applying it once, on every query.
\<close>

theorem add_limit_if_missing_substring_test:
  "\<not> has_limit_keyword ''SELECT credit_limit FROM customers''
   \<and> add_limit_if_missing ''SELECT credit_limit FROM customers'' 100
       = ''SELECT credit_limit FROM customers''
   \<and> add_limit_if_missing ''SELECT name FROM customers;'' 100
       = ''SELECT name FROM customers LIMIT 100''
   \<and> add_limit_if_missing (add_limit_if_missing q n) n = add_limit_if_missing q n"
proof (intro conjI)
  note ev = has_limit_keyword_def add_limit_if_missing_def word_search_def boundary_after_def
    is_word_char_def upper_def upper_char_def char_tables
  show "\<not> has_limit_keyword ''SELECT credit_limit FROM customers''"
    by (simp add: ev)
  show "add_limit_if_missing ''SELECT credit_limit FROM customers'' 100
       = ''SELECT credit_limit FROM customers''"
    by (simp add: ev)
  show "add_limit_if_missing ''SELECT name FROM customers;'' 100
       = ''SELECT name FROM customers LIMIT 100''"
    by (simp add: ev rstrip_def rstrip_char_def is_space_def str_int_def digit_char_def)
  have "upper '' LIMIT '' = '' '' @ ''LIMIT'' @ '' ''"
    by (simp add: upper_def upper_char_def char_tables)
  then have "str_in ''LIMIT'' (upper (x @ '' LIMIT '' @ y))" for x y
    unfolding str_in_iff upper_append
    by (metis append.assoc)
  then show "add_limit_if_missing (add_limit_if_missing q n) n = add_limit_if_missing q n"
    by (simp add: add_limit_if_missing_def Let_def)
qed

section \<open>The action parser\<close>































section \<open>The LLM client: retries, backoff and classification\<close>

lemma api_calls_append: "api_calls (a @ b) = api_calls a @ api_calls b"
  by (induction a rule: api_calls.induct) auto

lemma backoff_nonneg: "0 \<le> retry_delay cfg \<Longrightarrow> 0 \<le> backoff cfg k"
  by (simp add: backoff_def)

lemma retry_loop_nonfatal_step:
  assumes "snd (prov a) = Failure msg" and "\<not> any_keyword daily_limit_keywords msg"
    and "0 \<le> retry_delay cfg"
  shows "retry_loop cfg prov (a # rest) st =
     (if a < max_retries cfg
      then (case retry_loop cfg prov rest
                   (st\<lparr>last_api_call := clock st, clock := clock st + fst (prov a) + backoff cfg a\<rparr>) of
              (r, st', ev) \<Rightarrow> (r, st', ApiCall a (clock st) # Sleep (backoff cfg a) # ev))
      else (Inl (final_error cfg msg),
            st\<lparr>last_api_call := clock st, clock := clock st + fst (prov a)\<rparr>,
            [ApiCall a (clock st)]))"
  using assms backoff_nonneg[OF assms(3), of a]
  by (simp add: sleep_def final_error_def Let_def)

lemma retry_loop_sustained:
  assumes "0 \<le> retry_delay cfg"
    and "\<forall>k. \<exists>msg. snd (prov k) = Failure msg \<and> \<not> any_keyword daily_limit_keywords msg"
    and "retry_loop cfg prov [i..max_retries cfg] st = (r, st', ev)"
  shows "map fst (api_calls ev) = [i..max_retries cfg]
     \<and> (\<forall>k. i < k \<and> k \<le> max_retries cfg \<longrightarrow> delay_before k ev = Some (backoff cfg (k - 1)))
     \<and> (i \<le> max_retries cfg \<longrightarrow>
          (\<exists>t ev'. ev = ApiCall i t # ev')
          \<and> (\<exists>msg. snd (prov (max_retries cfg)) = Failure msg \<and> r = Inl (final_error cfg msg)))
     \<and> (\<not> i \<le> max_retries cfg \<longrightarrow>
          r = Inl (Exn RuntimeError ''Failed to call LLM after max retries''))"
  using assms(3)
proof (induction "nat (max_retries cfg + 1 - i)" arbitrary: i st r st' ev)
  case 0
  then have "\<not> i \<le> max_retries cfg" by simp
  then have "[i..max_retries cfg] = []" by simp
  with 0(2) \<open>\<not> i \<le> max_retries cfg\<close> show ?case by auto
next
  case (Suc m)
  then have le: "i \<le> max_retries cfg" by simp
  then have up: "[i..max_retries cfg] = i # [i + 1..max_retries cfg]" by (simp add: upto_rec1)
  from assms(2) obtain msg where msg: "snd (prov i) = Failure msg"
    and nf: "\<not> any_keyword daily_limit_keywords msg" by blast
  note step = retry_loop_nonfatal_step[where prov = prov and a = i and rest = "[i + 1..max_retries cfg]"
      and st = st, OF msg nf assms(1)]
  show ?case
  proof (cases "i < max_retries cfg")
    case False
    with le have eq: "i = max_retries cfg" by simp
    from Suc.prems have "r = Inl (final_error cfg msg)" "ev = [ApiCall i (clock st)]"
      unfolding up step using False by auto
    then show ?thesis using eq msg by auto
  next
    case True
    obtain r2 st2 ev2 where rec: "retry_loop cfg prov [i + 1..max_retries cfg]
        (st\<lparr>last_api_call := clock st, clock := clock st + fst (prov i) + backoff cfg i\<rparr>) = (r2, st2, ev2)"
      by (cases "retry_loop cfg prov [i + 1..max_retries cfg]
        (st\<lparr>last_api_call := clock st, clock := clock st + fst (prov i) + backoff cfg i\<rparr>)") auto
    from Suc.prems have r: "r = r2" and ev: "ev = ApiCall i (clock st) # Sleep (backoff cfg i) # ev2"
      unfolding up step using True rec by auto
    have m: "m = nat (max_retries cfg + 1 - (i + 1))" using Suc(2) by simp
    from Suc(1)[OF m rec] True
    have calls: "map fst (api_calls ev2) = [i + 1..max_retries cfg]"
      and delays: "\<forall>k. i + 1 < k \<and> k \<le> max_retries cfg \<longrightarrow> delay_before k ev2 = Some (backoff cfg (k - 1))"
      and hd2: "\<exists>t ev'. ev2 = ApiCall (i + 1) t # ev'"
      and res: "\<exists>msg. snd (prov (max_retries cfg)) = Failure msg \<and> r2 = Inl (final_error cfg msg)"
      by auto
    from hd2 obtain t2 ev3 where ev2: "ev2 = ApiCall (i + 1) t2 # ev3" by blast
    have "delay_before k ev = Some (backoff cfg (k - 1))" if "i < k" "k \<le> max_retries cfg" for k
    proof (cases "k = i + 1")
      case True
      then show ?thesis by (simp add: ev ev2)
    next
      case False
      with that have "i + 1 < k" by simp
      with delays that have "delay_before k ev2 = Some (backoff cfg (k - 1))" by blast
      then show ?thesis using False by (simp add: ev ev2)
    qed
    then show ?thesis using calls res r le up by (auto simp: ev)
  qed
qed







lemma call_llm_events:
  assumes "call_llm cfg prov st = (r, st', ev)"
  obtains st1 pre ev1 where "retry_loop cfg prov [1..max_retries cfg] st1 = (r, st', ev1)"
    and "ev = pre @ ev1" and "pre = [] \<or> (\<exists>d. pre = [Sleep d])"
    and "last_api_call st1 = last_api_call st"
    and "last_api_call st + min_delay_between_calls cfg \<le> clock st1"
proof -
  define waited where "waited = (clock st - last_api_call st < min_delay_between_calls cfg)"
  define st1 where "st1 = (if waited
      then st\<lparr>clock := clock st + (min_delay_between_calls cfg - (clock st - last_api_call st))\<rparr>
      else st)"
  obtain r1 s1 ev1 where loop: "retry_loop cfg prov [1..max_retries cfg] st1 = (r1, s1, ev1)"
    by (cases "retry_loop cfg prov [1..max_retries cfg] st1") auto
  from assms loop have "r = r1" "st' = s1"
    and ev: "ev = (if waited then [Sleep (min_delay_between_calls cfg - (clock st - last_api_call st))] else []) @ ev1"
    by (auto simp: call_llm_def Let_def st1_def waited_def)
  moreover have "last_api_call st1 = last_api_call st" by (simp add: st1_def)
  moreover have "last_api_call st + min_delay_between_calls cfg \<le> clock st1"
    by (auto simp: st1_def waited_def)
  ultimately show thesis using that[of st1 ev1] loop by auto
qed

lemma delay_before_after_wait:
  assumes "ev1 = [] \<or> (\<exists>t ev'. ev1 = ApiCall 1 t # ev')" and "1 < k"
    and "pre = [] \<or> (\<exists>d. pre = [Sleep d])"
  shows "delay_before k (pre @ ev1) = delay_before k ev1"
  using assms by auto

lemmas keyword_eval = any_keyword_def daily_limit_keywords_def rate_limit_keywords_def
  lower_def lower_char_def char_tables

text \<open>
  C5. When every attempt fails with a message that holds no daily-limit keyword, and
  \<open>retry_delay\<close> is not negative, the sleep directly before attempt \<open>k\<close> is
  \<open>retry_delay * 2^(k-2)\<close> for every \<open>k\<close> with \<open>1 < k \<le> max_retries\<close>; the attempts made
  are exactly those numbered \<open>1\<close> to \<open>max_retries\<close>, and the invocation raises.
\<close>

theorem backoff_schedule:
  assumes "0 \<le> retry_delay cfg"
    and "\<forall>k. \<exists>msg. snd (prov k) = Failure msg \<and> \<not> any_keyword daily_limit_keywords msg"
    and "call_llm cfg prov st = (r, st', ev)"
  shows "(\<forall>k. 1 < k \<and> k \<le> max_retries cfg
            \<longrightarrow> delay_before k ev = Some (retry_delay cfg * 2 ^ nat (k - 2)))
     \<and> map fst (api_calls ev) = [1..max_retries cfg]
     \<and> int (length (api_calls ev)) = max 0 (max_retries cfg)
     \<and> (\<exists>e. r = Inl e)"
proof -
  from call_llm_events[OF assms(3)] obtain st1 pre ev1
    where loop: "retry_loop cfg prov [1..max_retries cfg] st1 = (r, st', ev1)"
      and ev: "ev = pre @ ev1" and pre: "pre = [] \<or> (\<exists>d. pre = [Sleep d])"
    by metis
  note sus = retry_loop_sustained[OF assms(1,2) loop]
  have calls: "map fst (api_calls ev) = [1..max_retries cfg]"
    using sus pre by (auto simp: ev api_calls_append)
  have hd: "ev1 = [] \<or> (\<exists>t ev'. ev1 = ApiCall 1 t # ev')"
  proof (cases "1 \<le> max_retries cfg")
    case True
    with sus show ?thesis by blast
  next
    case False
    then have "[1..max_retries cfg] = []" by simp
    with loop show ?thesis by simp
  qed
  have delays: "delay_before k ev = Some (retry_delay cfg * 2 ^ nat (k - 2))"
    if "1 < k" "k \<le> max_retries cfg" for k
  proof -
    have "delay_before k ev = delay_before k ev1"
      unfolding ev using hd that(1) pre by (rule delay_before_after_wait)
    also have "\<dots> = Some (backoff cfg (k - 1))" using sus that by blast
    also have "backoff cfg (k - 1) = retry_delay cfg * 2 ^ nat (k - 2)"
      by (simp add: backoff_def algebra_simps)
    finally show ?thesis .
  qed
  have "length (api_calls ev) = length [1..max_retries cfg]"
    using calls by (metis length_map)
  then have len: "int (length (api_calls ev)) = max 0 (max_retries cfg)" by simp
  have "\<exists>e. r = Inl e" using sus by (cases "1 \<le> max_retries cfg") auto
  with delays calls len show ?thesis by blast
qed

theorem backoff_schedule_witness:
  "0 \<le> retry_delay default_config
   \<and> delay_before 2 (snd (snd (call_llm default_config (always_fails ''Connection reset'') (fresh_client 1000)))) = Some 5
   \<and> delay_before 3 (snd (snd (call_llm default_config (always_fails ''Connection reset'') (fresh_client 1000)))) = Some 10
   \<and> map fst (api_calls (snd (snd (call_llm default_config (always_fails ''Connection reset'') (fresh_client 1000))))) = [1, 2, 3]"
proof -
  let ?c = "call_llm default_config (always_fails ''Connection reset'') (fresh_client 1000)"
  have h1: "0 \<le> retry_delay default_config" by (simp add: default_config_def)
  have h2: "\<forall>k. \<exists>msg. snd (always_fails ''Connection reset'' k) = Failure msg
      \<and> \<not> any_keyword daily_limit_keywords msg"
    by (simp add: always_fails_def keyword_eval)
  have h3: "?c = (fst ?c, fst (snd ?c), snd (snd ?c))" by simp
  note t = backoff_schedule[OF h1 h2 h3]
  have m: "max_retries default_config = 3" "retry_delay default_config = 5"
    by (simp_all add: default_config_def)
  from t have d: "\<And>k. 1 < k \<Longrightarrow> k \<le> 3 \<Longrightarrow> delay_before k (snd (snd ?c)) = Some (5 * 2 ^ nat (k - 2))"
    unfolding m by blast
  from t have c: "map fst (api_calls (snd (snd ?c))) = [1..3]" unfolding m by blast
  have u: "[1..3] = [1, 2, 3::int]" by (simp add: upto_rec1)
  show ?thesis using h1 d[of 2] d[of 3] c u by simp
qed




section \<open>The LLM client: the gap between provider calls\<close>

text \<open>
  C2 on the code. The wait that keeps \<open>min_delay_between_calls\<close> stands before the retry
  loop, once in an invocation, while every attempt stamps \<open>_last_api_call\<close>; a retry is
  preceded by the backoff sleep only. With the default configuration (minimum delay 20 s,
  retry delay 5 s) an attempt stamped 1000 that is throttled after one second is followed
  by its retry, stamped 1006: the two successive calls are 6 s apart. The first attempt
  of the next invocation is stamped 1026, 20 s after the retry.
\<close>

theorem retry_gap_below_min_delay:
  "api_calls (call_sequence default_config example_invocations (fresh_client 1000))
     = [(1, 1000), (2, 1006), (1, 1026)]
   \<and> min_delay_between_calls default_config = 20
   \<and> \<not> (1000 + min_delay_between_calls default_config \<le> 1006)"
proof (intro conjI)
  have up: "[1..max_retries default_config] = [1, 2, 3]"
    by (simp add: default_config_def upto_rec1)
  have rate: "\<not> any_keyword daily_limit_keywords ''Rate limit reached''"
    "any_keyword rate_limit_keywords ''Rate limit reached''"
    by (simp_all add: keyword_eval)
  have first: "call_llm default_config
      (scripted [Failure ''Rate limit reached'', Response ''THOUGHT: count the rows''])
      (fresh_client 1000\<lparr>clock := clock (fresh_client 1000) + 0\<rparr>)
      = (Inr ''THOUGHT: count the rows'', \<lparr>clock = 1007, last_api_call = 1006\<rparr>,
         [ApiCall 1 1000, Sleep 5, ApiCall 2 1006])"
    unfolding call_llm_def up Let_def
    using rate by (simp add: scripted_def fresh_client_def default_config_def sleep_def backoff_def)
  have second: "call_llm default_config (scripted [Response ''FINAL ANSWER: 8''])
      (\<lparr>clock = 1007, last_api_call = 1006\<rparr>\<lparr>clock := clock \<lparr>clock = 1007, last_api_call = 1006\<rparr> + 2\<rparr>)
      = (Inr ''FINAL ANSWER: 8'', \<lparr>clock = 1027, last_api_call = 1026\<rparr>,
         [Sleep 17, ApiCall 1 1026])"
    unfolding call_llm_def up Let_def
    by (simp add: scripted_def default_config_def)
  show "api_calls (call_sequence default_config example_invocations (fresh_client 1000))
     = [(1, 1000), (2, 1006), (1, 1026)]"
    unfolding example_invocations_def call_sequence.simps first second prod.case
    by simp
  show "min_delay_between_calls default_config = 20"
    by (simp add: default_config_def)
  show "\<not> (1000 + min_delay_between_calls default_config \<le> 1006)"
    by (simp add: default_config_def)
qed

section \<open>The controller: tool dispatch and the final answer\<close>

lemma call_llm_first_response:
  assumes "1 \<le> max_retries cfg" and "snd (prov 1) = Response reply"
  shows "\<exists>cl ev. call_llm cfg prov st = (Inr reply, cl, ev)"
proof -
  from assms(1) have up: "[1..max_retries cfg] = 1 # [2..max_retries cfg]"
    by (simp add: upto_rec1)
  show ?thesis unfolding call_llm_def Let_def up using assms(2) by (simp add: Let_def)
qed

lemma call_llm_first_fatal:
  assumes "1 \<le> max_retries cfg" and "snd (prov 1) = Failure m"
    and "any_keyword daily_limit_keywords m"
  shows "\<exists>cl ev. call_llm cfg prov st = (Inl (Exn RuntimeError (daily_limit_error_msg m)), cl, ev)"
proof -
  from assms(1) have up: "[1..max_retries cfg] = 1 # [2..max_retries cfg]"
    by (simp add: upto_rec1)
  show ?thesis unfolding call_llm_def Let_def up using assms(2,3) by (simp add: Let_def)
qed

lemma run_loop_final_step:
  assumes "call_llm (config ag) (llm (rs_history rs)) (rs_client rs) = (Inr reply, cl, ev)"
    and "has_final_answer reply"
  shows "run_loop loads llm ag (iteration # rest) rs
     = (Inr (extract_final_answer reply),
        rs\<lparr>rs_client := cl, rs_response := Some reply,
            rs_history := rs_history rs @ [\<lparr>role = ''assistant'', content = reply\<rparr>]\<rparr>)"
  using assms by (simp add: Let_def)


text \<open>
  An exception of the decoder that is not a \<open>JSONDecodeError\<close> passes through the
  action parser and leaves \<open>run\<close>.
\<close>

lemma extract_action_lets_through:
  assumes "search_action reply = Some (tool_name, after)"
    and "dropWhile (\<lambda>c. c \<noteq> CHR ''{'') after \<noteq> []"
    and "find_brace_end (dropWhile (\<lambda>c. c \<noteq> CHR ''{'') after) 0 0 = Some brace_end"
    and "loads (take (brace_end + 1) (dropWhile (\<lambda>c. c \<noteq> CHR ''{'') after)) = Inl e"
    and "exn_class_of e \<noteq> JSONDecodeError"
  shows "extract_action_from_response loads reply = Inl e"
  using assms unfolding extract_action_from_response_def Let_def by simp

lemma run_loop_parser_raises:
  assumes "call_llm (config ag) (llm (rs_history rs)) (rs_client rs) = (Inr reply, cl, ev)"
    and "\<not> has_final_answer reply"
    and "extract_action_from_response loads reply = Inl e"
  shows "fst (run_loop loads llm ag (iteration # rest) rs) = Inl e"
  using assms by (simp add: Let_def)






text \<open>Evaluations of the examples.\<close>

lemma example_agent_config:
  "config example_agent = default_config"
  "max_retries default_config = 3"
  "max_iterations default_config = 10"
  "tools_dict example_agent = create_tool_registry example_db"
  "[1..max_iterations (config example_agent)] = 1 # [2..10]"
  by (simp_all add: example_agent_def default_config_def upto_rec1)

lemma both_reply_final: "has_final_answer both_reply"
  by (simp add: has_final_answer_def both_reply_def upper_def upper_char_def char_tables)

lemma both_reply_answer: "extract_final_answer both_reply = ''There are 8 employees.''"
  by (simp add: extract_final_answer_def both_reply_def match_final_at_def upper_def upper_char_def
      char_tables strip_def lstrip_def rstrip_def is_space_def)

lemma both_reply_action:
  "extract_action_from_response loads_fragment both_reply
     = Inr (Some (''describe_table'', JObj [(''table_name'', JStr ''employees'')]))"
  by code_simp

lemma quota_message: "any_keyword daily_limit_keywords ''Daily limit reached''"
  by (simp add: keyword_eval)











text \<open>
  C10. In an iteration whose response holds the final-answer marker, the run returns the
  extracted answer; the history only gains the response, and no tool is run. The decoder,
  the tools and the rest of the response are not consulted, so this holds as well when the
  response also holds a well-formed action.
\<close>

theorem final_answer_precedence:
  assumes "call_llm (config ag) (llm (rs_history rs)) (rs_client rs) = (Inr reply, cl, ev)"
    and "has_final_answer reply"
  shows "fst (run_loop loads llm ag (iteration # rest) rs) = Inr (extract_final_answer reply)
     \<and> rs_executed (snd (run_loop loads llm ag (iteration # rest) rs)) = rs_executed rs
     \<and> rs_history (snd (run_loop loads llm ag (iteration # rest) rs))
         = rs_history rs @ [\<lparr>role = ''assistant'', content = reply\<rparr>]"
  unfolding run_loop_final_step[where llm = llm and rs = rs and ag = ag, OF assms] by simp

theorem final_answer_precedence_witness:
  "has_final_answer both_reply
   \<and> extract_action_from_response loads_fragment both_reply
       = Inr (Some (''describe_table'', JObj [(''table_name'', JStr ''employees'')]))
   \<and> fst (run loads_fragment both_llm example_agent (fresh_client 1000) ''How many employees?'')
       = Inr ''There are 8 employees.''
   \<and> rs_executed (snd (run loads_fragment both_llm example_agent (fresh_client 1000)
        ''How many employees?'')) = []"
proof -
  define init where "init =
    \<lparr>rs_history = [\<lparr>role = ''system'', content = system_prompt example_agent\<rparr>,
                   \<lparr>role = ''user'', content = ''How many employees?''\<rparr>],
     rs_client = fresh_client 1000, rs_response = None, rs_executed = []\<rparr>"
  have r: "run loads_fragment both_llm example_agent (fresh_client 1000) ''How many employees?''
      = run_loop loads_fragment both_llm example_agent (1 # [2..10]) init"
    unfolding run_def example_agent_config(5) init_def by (rule refl)
  have "snd (both_llm (rs_history init) 1) = Response both_reply"
    by (simp add: both_llm_def scripted_def)
  from call_llm_first_response[where cfg = "config example_agent" and st = "rs_client init"
      and prov = "both_llm (rs_history init)" and reply = both_reply, OF _ this]
  obtain cl ev where c: "call_llm (config example_agent) (both_llm (rs_history init)) (rs_client init)
      = (Inr both_reply, cl, ev)"
    by (auto simp: example_agent_config)
  note t = final_answer_precedence[where llm = both_llm and rs = init and ag = example_agent
      and loads = loads_fragment and iteration = 1 and rest = "[2..10]", OF c both_reply_final]
  from t have "fst (run_loop loads_fragment both_llm example_agent (1 # [2..10]) init)
      = Inr ''There are 8 employees.''"
    by (simp add: both_reply_answer)
  moreover from t have "rs_executed (snd (run_loop loads_fragment both_llm example_agent (1 # [2..10]) init)) = []"
    by (simp add: init_def)
  ultimately show ?thesis
    unfolding r using both_reply_final both_reply_action by blast
qed

section \<open>The status of the logged run\<close>

lemma logging_loop_failure_step:
  assumes "call_llm (config ag) (llm history) cl = (Inl e, cl', ev)"
  shows "fst (logging_loop loads llm ag db (iteration # rest) history cl steps)
     = after_loop ag
        (steps @ [\<lparr>step_iteration = iteration, step_type = Some ''ERROR'', step_thought = [],
                   step_action = [], step_action_params = JObj [], step_observation = exn_str e,
                   step_raw_llm_response = [], step_final_answer = None\<rparr>])"
  using assms by (simp add: Let_def)

lemma logging_loop_status:
  "res_status (fst (logging_loop loads llm ag db iterations history cl steps))
     \<in> {''success'', ''max_iterations''}"
proof (induction iterations arbitrary: history cl steps)
  case Nil
  show ?case by (simp add: after_loop_def)
next
  case (Cons iteration rest)
  obtain r cl' ev where c: "call_llm (config ag) (llm history) cl = (r, cl', ev)"
    by (cases "call_llm (config ag) (llm history) cl") auto
  show ?case
  proof (cases r)
    case (Inl e)
    with c show ?thesis by (simp add: Let_def after_loop_def)
  next
    case (Inr reply)
    show ?thesis
    proof (cases "has_final_answer reply")
      case True
      with c Inr show ?thesis by (simp add: Let_def)
    next
      case False
      show ?thesis
      proof (cases "extract_action_from_response loads reply")
        case (Inl e)
        with c \<open>r = Inr reply\<close> False show ?thesis
          by (simp add: Let_def after_loop_def)
      next
        case parsed: (Inr found)
        show ?thesis
        proof (cases found)
          case None
          with parsed c \<open>r = Inr reply\<close> False show ?thesis
            using Cons.IH by (simp add: Let_def)
        next
          case (Some a)
          obtain action_name params where "a = (action_name, params)" by (cases a)
          with Some parsed c \<open>r = Inr reply\<close> False show ?thesis
            using Cons.IH by (simp add: Let_def)
        qed
      qed
    qed
  qed
qed

text \<open>
  C6 on the code. When the LLM call of an iteration raises, \<open>run_query_with_full_logging\<close>
  records a step of type \<open>ERROR\<close>, leaves the loop and returns the envelope of an exhausted
  budget: status \<open>max_iterations\<close>, the configured bound as \<open>iterations\<close>, and the text
  \<open>Max iterations reached without final answer\<close>. No run has the status \<open>error\<close>.
\<close>

theorem logging_llm_failure_status:
  assumes "call_llm (config ag) (llm history) cl = (Inl e, cl', ev)"
  shows "res_status (fst (logging_loop loads llm ag db (iteration # rest) history cl steps))
           = ''max_iterations''
     \<and> res_iterations (fst (logging_loop loads llm ag db (iteration # rest) history cl steps))
           = max_iterations (config ag)
     \<and> res_final_answer (fst (logging_loop loads llm ag db (iteration # rest) history cl steps))
           = ''Max iterations reached without final answer''
     \<and> map step_type (res_steps (fst (logging_loop loads llm ag db (iteration # rest) history cl steps)))
           = map step_type steps @ [Some ''ERROR'']
     \<and> res_status (fst (run_query_with_full_logging loads llm ag db cl0 user_query)) \<noteq> ''error''"
proof -
  have "res_status (fst (run_query_with_full_logging loads llm ag db cl0 user_query))
      \<in> {''success'', ''max_iterations''}"
    unfolding run_query_with_full_logging_def by (rule logging_loop_status)
  then have "res_status (fst (run_query_with_full_logging loads llm ag db cl0 user_query)) \<noteq> ''error''"
    by auto
  then show ?thesis
    unfolding logging_loop_failure_step[where llm = llm and ag = ag and history = history, OF assms]
    by (simp add: after_loop_def)
qed

theorem logging_llm_failure_status_witness:
  "res_status (fst (run_query_with_full_logging loads_fragment quota_llm example_agent example_db
      (fresh_client 1000) ''How many employees?'')) = ''max_iterations''
   \<and> res_iterations (fst (run_query_with_full_logging loads_fragment quota_llm example_agent example_db
      (fresh_client 1000) ''How many employees?'')) = 10
   \<and> res_final_answer (fst (run_query_with_full_logging loads_fragment quota_llm example_agent example_db
      (fresh_client 1000) ''How many employees?'')) = ''Max iterations reached without final answer''
   \<and> map step_type (res_steps (fst (run_query_with_full_logging loads_fragment quota_llm example_agent
      example_db (fresh_client 1000) ''How many employees?''))) = [Some ''ERROR'']"
proof -
  let ?history = "[\<lparr>role = ''system'', content = system_prompt example_agent\<rparr>,
                   \<lparr>role = ''user'', content = ''How many employees?''\<rparr>]"
  have r: "run_query_with_full_logging loads_fragment quota_llm example_agent example_db
      (fresh_client 1000) ''How many employees?''
      = logging_loop loads_fragment quota_llm example_agent example_db (1 # [2..10]) ?history
          (fresh_client 1000) []"
    unfolding run_query_with_full_logging_def example_agent_config(5) by (rule refl)
  have "snd (quota_llm ?history 1) = Failure ''Daily limit reached''"
    by (simp add: quota_llm_def always_fails_def)
  from call_llm_first_fatal[where cfg = "config example_agent" and st = "fresh_client 1000"
      and prov = "quota_llm ?history" and m = "''Daily limit reached''", OF _ this quota_message]
  obtain cl ev where c: "call_llm (config example_agent) (quota_llm ?history) (fresh_client 1000)
      = (Inl (Exn RuntimeError (daily_limit_error_msg ''Daily limit reached'')), cl, ev)"
    by (auto simp: example_agent_config)
  note t = logging_llm_failure_status[where llm = quota_llm and ag = example_agent
      and history = ?history and loads = loads_fragment and db = example_db and iteration = 1
      and rest = "[2..10]" and steps = "[]", OF c]
  from t show ?thesis unfolding r by (simp add: example_agent_config)
qed

end
